theory Spec2Isabelle
  imports Main "HOL-Library.Sublist"
begin

section \<open>JavaScript values reaching the filter\<close>

text \<open>
  The filter of \<^verbatim>\<open>src/common/exception/global-exception.filter.ts\<close> receives a value of
  type \<^verbatim>\<open>unknown\<close> and reads fields of it through \<^verbatim>\<open>any\<close>. The values are modelled as
  a datatype: the primitives, arrays and plain objects (an association list, the first
  binding of a key being the property). An object is an ordinary one: its prototype is
  \<^verbatim>\<open>Object.prototype\<close> and its own properties are data properties, so no property is a
  function. Numbers are the integer-valued ones; how a number is printed is left to a
  parameter, since JavaScript prints a large number in other digits than its own.
\<close>

datatype jsval =
    JUndefined
  | JNull
  | JBool bool
  | JNum int
  | JStr string
  | JArr "jsval list"
  | JObj "(string \<times> jsval) list"

datatype js_error = TypeError

text \<open>Truthiness, as the operator \<^verbatim>\<open>||\<close> tests it.\<close>

fun js_truthy :: "jsval \<Rightarrow> bool" where
  "js_truthy JUndefined = False"
| "js_truthy JNull = False"
| "js_truthy (JBool b) = b"
| "js_truthy (JNum n) = (n \<noteq> 0)"
| "js_truthy (JStr s) = (s \<noteq> [])"
| "js_truthy (JArr xs) = True"
| "js_truthy (JObj kvs) = True"

text \<open>
  Reading the property \<^verbatim>\<open>message\<close> (or any name that is no index and that no prototype
  defines): a TypeError on \<^verbatim>\<open>null\<close> and \<^verbatim>\<open>undefined\<close>, \<^verbatim>\<open>undefined\<close> on the other primitives and on
  arrays, the bound value or \<^verbatim>\<open>undefined\<close> on an object.
\<close>

fun js_get :: "jsval \<Rightarrow> string \<Rightarrow> js_error + jsval" where
  "js_get JUndefined k = Inl TypeError"
| "js_get JNull k = Inl TypeError"
| "js_get (JObj kvs) k = (case map_of kvs k of None \<Rightarrow> Inr JUndefined | Some v \<Rightarrow> Inr v)"
| "js_get v k = Inr JUndefined"

fun isArray :: "jsval \<Rightarrow> bool" where
  "isArray (JArr xs) = True"
| "isArray v = False"

text \<open>\<^verbatim>\<open>Array.prototype.join\<close> on strings already converted.\<close>

fun join_strings :: "string \<Rightarrow> string list \<Rightarrow> string" where
  "join_strings sep [] = []"
| "join_strings sep [x] = x"
| "join_strings sep (x # y # ys) = x @ sep @ join_strings sep (y # ys)"

text \<open>
  The conversion to a string that a template literal and \<^verbatim>\<open>join\<close> apply; \<open>N\<close> prints a
  number. An array is its elements joined with a comma, \<^verbatim>\<open>null\<close> and \<^verbatim>\<open>undefined\<close>
  elements giving the empty string. An object without an own property \<^verbatim>\<open>toString\<close> is
  \<^verbatim>\<open>[object Object]\<close>, by the method it inherits. With an own property \<^verbatim>\<open>toString\<close>, which is
  no function, the conversion tries \<^verbatim>\<open>valueOf\<close>, gets no primitive value (the inherited
  method returns the object, an own property is no function), and raises a TypeError. The
  conversion of an array raises when the conversion of an element does.
\<close>

fun js_ToString :: "(int \<Rightarrow> string) \<Rightarrow> jsval \<Rightarrow> js_error + string"
  and js_element :: "(int \<Rightarrow> string) \<Rightarrow> jsval \<Rightarrow> js_error + string"
  and js_elements :: "(int \<Rightarrow> string) \<Rightarrow> jsval list \<Rightarrow> js_error + string list" where
  "js_ToString N JUndefined = Inr ''undefined''"
| "js_ToString N JNull = Inr ''null''"
| "js_ToString N (JBool b) = Inr (if b then ''true'' else ''false'')"
| "js_ToString N (JNum n) = Inr (N n)"
| "js_ToString N (JStr s) = Inr s"
| "js_ToString N (JArr xs) =
     (case js_elements N xs of Inl err \<Rightarrow> Inl err | Inr ss \<Rightarrow> Inr (join_strings '','' ss))"
| "js_ToString N (JObj kvs) =
     (case map_of kvs ''toString'' of None \<Rightarrow> Inr ''[object Object]'' | Some f \<Rightarrow> Inl TypeError)"
| "js_element N JUndefined = Inr []"
| "js_element N JNull = Inr []"
| "js_element N (JBool b) = js_ToString N (JBool b)"
| "js_element N (JNum n) = js_ToString N (JNum n)"
| "js_element N (JStr s) = js_ToString N (JStr s)"
| "js_element N (JArr xs) = js_ToString N (JArr xs)"
| "js_element N (JObj kvs) = js_ToString N (JObj kvs)"
| "js_elements N [] = Inr []"
| "js_elements N (x # xs) =
     (case js_element N x of
        Inl err \<Rightarrow> Inl err
      | Inr s \<Rightarrow> (case js_elements N xs of Inl err \<Rightarrow> Inl err | Inr ss \<Rightarrow> Inr (s # ss)))"

definition js_join :: "(int \<Rightarrow> string) \<Rightarrow> jsval list \<Rightarrow> string \<Rightarrow> js_error + string" where
  "js_join N xs sep =
     (case js_elements N xs of Inl err \<Rightarrow> Inl err | Inr ss \<Rightarrow> Inr (join_strings sep ss))"

section \<open>Errors and the thrown value\<close>

text \<open>The fields every JavaScript \<^verbatim>\<open>Error\<close> has.\<close>

record ErrorFields =
  name :: string
  message :: string
  stack :: "string option"

text \<open>
  The framework's \<^verbatim>\<open>HttpException\<close>: an \<^verbatim>\<open>Error\<close> with the status that \<^verbatim>\<open>getStatus()\<close> returns
  and the response, a string or an object by its declared type, that \<^verbatim>\<open>getResponse()\<close>
  returns.
\<close>

record HttpException = ErrorFields +
  getStatus :: int
  getResponse :: jsval

text \<open>
  The instances of \<^verbatim>\<open>Error\<close>, by class. Modelled from the spec: the classes
  \<^verbatim>\<open>EnvUndefinedError\<close>, \<^verbatim>\<open>CustomUnExpectedError\<close> and \<^verbatim>\<open>CustomUndefinedError\<close> of \<^verbatim>\<open>./errors\<close>,
  which the source tree does not hold: the first is the environment-configuration error,
  the second wraps a genuine error, the third wraps a raw value that is no error; none of
  them is an \<^verbatim>\<open>HttpException\<close>. A wrapper carries its own \<^verbatim>\<open>Error\<close> fields and what it wraps.
\<close>

datatype Error =
    HttpExceptionInst HttpException
  | EnvUndefinedErrorInst ErrorFields
  | CustomUnExpectedErrorInst ErrorFields Error
  | CustomUndefinedErrorInst ErrorFields jsval
  | OtherErrorInst ErrorFields

text \<open>The value of type \<^verbatim>\<open>unknown\<close> that the framework hands to the filter.\<close>

datatype unknown =
    AnError Error
  | NotAnError jsval

fun Error_name :: "Error \<Rightarrow> string" where
  "Error_name (HttpExceptionInst h) = name h"
| "Error_name (EnvUndefinedErrorInst f) = name f"
| "Error_name (CustomUnExpectedErrorInst f e) = name f"
| "Error_name (CustomUndefinedErrorInst f v) = name f"
| "Error_name (OtherErrorInst f) = name f"

fun Error_message :: "Error \<Rightarrow> string" where
  "Error_message (HttpExceptionInst h) = message h"
| "Error_message (EnvUndefinedErrorInst f) = message f"
| "Error_message (CustomUnExpectedErrorInst f e) = message f"
| "Error_message (CustomUndefinedErrorInst f v) = message f"
| "Error_message (OtherErrorInst f) = message f"

fun Error_stack :: "Error \<Rightarrow> string option" where
  "Error_stack (HttpExceptionInst h) = stack h"
| "Error_stack (EnvUndefinedErrorInst f) = stack f"
| "Error_stack (CustomUnExpectedErrorInst f e) = stack f"
| "Error_stack (CustomUndefinedErrorInst f v) = stack f"
| "Error_stack (OtherErrorInst f) = stack f"

section \<open>Response categories\<close>

text \<open>
  Modelled from the spec: the type \<^verbatim>\<open>ResponseInfo\<close> of \<^verbatim>\<open>../response/types\<close> and the twelve
  constants of \<^verbatim>\<open>./constants/http.response-info.constants\<close>, which the source tree does
  not hold. A category is a numeric status code and a canonical label; the status of each
  constant is the one the spec's table pairs it with, the label is its name.
\<close>

record ResponseInfo =
  status :: int
  label :: string

definition BAD_REQUEST :: ResponseInfo where
  "BAD_REQUEST = \<lparr>status = 400, label = ''BAD_REQUEST''\<rparr>"

definition UNAUTHORIZED :: ResponseInfo where
  "UNAUTHORIZED = \<lparr>status = 401, label = ''UNAUTHORIZED''\<rparr>"

definition FORBIDDEN :: ResponseInfo where
  "FORBIDDEN = \<lparr>status = 403, label = ''FORBIDDEN''\<rparr>"

definition NOT_FOUND :: ResponseInfo where
  "NOT_FOUND = \<lparr>status = 404, label = ''NOT_FOUND''\<rparr>"

definition CONFLICT :: ResponseInfo where
  "CONFLICT = \<lparr>status = 409, label = ''CONFLICT''\<rparr>"

definition GONE :: ResponseInfo where
  "GONE = \<lparr>status = 410, label = ''GONE''\<rparr>"

definition PAYLOAD_TOO_LARGE :: ResponseInfo where
  "PAYLOAD_TOO_LARGE = \<lparr>status = 413, label = ''PAYLOAD_TOO_LARGE''\<rparr>"

definition UNSUPPORTED_MEDIA_TYPE :: ResponseInfo where
  "UNSUPPORTED_MEDIA_TYPE = \<lparr>status = 415, label = ''UNSUPPORTED_MEDIA_TYPE''\<rparr>"

definition UNPROCESSABLE_ENTITY :: ResponseInfo where
  "UNPROCESSABLE_ENTITY = \<lparr>status = 422, label = ''UNPROCESSABLE_ENTITY''\<rparr>"

definition INTERNAL_SERVER_ERROR :: ResponseInfo where
  "INTERNAL_SERVER_ERROR = \<lparr>status = 500, label = ''INTERNAL_SERVER_ERROR''\<rparr>"

definition NOT_IMPLEMENTED :: ResponseInfo where
  "NOT_IMPLEMENTED = \<lparr>status = 501, label = ''NOT_IMPLEMENTED''\<rparr>"

definition SERVICE_UNAVAILABLE :: ResponseInfo where
  "SERVICE_UNAVAILABLE = \<lparr>status = 503, label = ''SERVICE_UNAVAILABLE''\<rparr>"

text \<open>
  Modelled from the spec: the class \<^verbatim>\<open>GlobalErrorDto\<close> of \<^verbatim>\<open>./dto\<close>, which the source tree does
  not hold: the \<^verbatim>\<open>error\<close> part of the envelope, with its one field \<^verbatim>\<open>message\<close> (the field
  is named \<open>dto_message\<close> here, \<open>message\<close> being the field of an \<^verbatim>\<open>Error\<close>).
\<close>

record GlobalErrorDto =
  dto_message :: jsval

text \<open>
  What the filter uses and neither the source tree nor the spec fixes is a parameter of
  the model: the two constants of \<^verbatim>\<open>./constants/extra.response-info.constants\<close>, whose
  status the spec does not give; the \<^verbatim>\<open>Error\<close> fields that the constructors of the two
  wrapper classes give a new wrapper; the DTO that \<^verbatim>\<open>GlobalErrorDto.create\<close> makes of a message
  that is no string; and the digits in which the runtime prints a number. Each is a
  total function: the code that is not at hand is taken to return.
\<close>

record deps =
  UNEXPECTED_ERROR :: ResponseInfo
  UNDEFINED_ERROR :: ResponseInfo
  newCustomUnExpectedError :: "Error \<Rightarrow> ErrorFields"
  newCustomUndefinedError :: "jsval \<Rightarrow> ErrorFields"
  nonStringErrorDto :: "jsval \<Rightarrow> GlobalErrorDto"
  numberToString :: "int \<Rightarrow> string"

section \<open>The helper functions of the filter\<close>

text \<open>
  \<^verbatim>\<open>getHttpErrorInfo\<close>: the category and the message of an \<^verbatim>\<open>HttpException\<close>. The message is
  read first (lines 71 to 74), and the read raises on a response body that is \<^verbatim>\<open>null\<close> or
  \<^verbatim>\<open>undefined\<close>; the switch on the status follows, its first case reading the \<^verbatim>\<open>message\<close>
  field once more and joining it when it is an array, which raises when the conversion
  of an element does. A local variable whose name is a record field's carries a prime.
\<close>

definition getHttpErrorInfo :: "deps \<Rightarrow> HttpException \<Rightarrow> js_error + (ResponseInfo \<times> jsval)" where
  "getHttpErrorInfo D exception =
    (let status' = getStatus exception;
         exceptionResponse = getResponse exception
     in case (case exceptionResponse of
                JStr s \<Rightarrow> Inr (JStr s)
              | _ \<Rightarrow> (case js_get exceptionResponse ''message'' of
                         Inl err \<Rightarrow> Inl err
                       | Inr m \<Rightarrow> Inr (if js_truthy m then m else JStr (message exception)))) of
          Inl err \<Rightarrow> Inl err
        | Inr message' \<Rightarrow>
            if status' = 400 then
              (case js_get exceptionResponse ''message'' of
                 Inl err \<Rightarrow> Inl err
               | Inr m \<Rightarrow>
                   (case m of
                      JArr xs \<Rightarrow>
                        (case js_join (numberToString D) xs '', '' of
                           Inl err \<Rightarrow> Inl err
                         | Inr joined \<Rightarrow> Inr (BAD_REQUEST, JStr joined))
                    | _ \<Rightarrow> Inr (BAD_REQUEST, message')))
            else if status' = 401 then Inr (UNAUTHORIZED, message')
            else if status' = 403 then Inr (FORBIDDEN, message')
            else if status' = 404 then Inr (NOT_FOUND, message')
            else if status' = 409 then Inr (CONFLICT, message')
            else if status' = 410 then Inr (GONE, message')
            else if status' = 413 then Inr (PAYLOAD_TOO_LARGE, message')
            else if status' = 415 then Inr (UNSUPPORTED_MEDIA_TYPE, message')
            else if status' = 422 then Inr (UNPROCESSABLE_ENTITY, message')
            else if status' = 500 then Inr (INTERNAL_SERVER_ERROR, message')
            else if status' = 501 then Inr (NOT_IMPLEMENTED, message')
            else if status' = 503 then Inr (SERVICE_UNAVAILABLE, message')
            else Inr (INTERNAL_SERVER_ERROR, message'))"

fun isHandledError :: "unknown \<Rightarrow> bool" where
  "isHandledError (AnError (HttpExceptionInst h)) = True"
| "isHandledError (AnError (EnvUndefinedErrorInst f)) = True"
| "isHandledError exception = False"

definition getUnExpectedError :: "deps \<Rightarrow> Error \<Rightarrow> Error" where
  "getUnExpectedError D error = CustomUnExpectedErrorInst (newCustomUnExpectedError D error) error"

definition getUnDefinedError :: "deps \<Rightarrow> jsval \<Rightarrow> Error" where
  "getUnDefinedError D error = CustomUndefinedErrorInst (newCustomUndefinedError D error) error"

text \<open>
  \<^verbatim>\<open>handleException\<close>: a handled error is returned as it is, another \<^verbatim>\<open>Error\<close> is wrapped as
  unexpected, a value that is no \<^verbatim>\<open>Error\<close> as undefined. The test \<^verbatim>\<open>instanceof Error\<close> is the
  pattern match; \<^verbatim>\<open>isHandledError\<close> is false on a value that is no \<^verbatim>\<open>Error\<close>, so the second
  equation is the source's last branch.
\<close>

fun handleException :: "deps \<Rightarrow> unknown \<Rightarrow> Error" where
  "handleException D (AnError e) =
     (if isHandledError (AnError e) then e else getUnExpectedError D e)"
| "handleException D (NotAnError v) = getUnDefinedError D v"

section \<open>The filter\<close>

text \<open>
  Modelled from the spec: the logger, the two DTO factories and the response channel,
  which the source tree does not hold. \<^verbatim>\<open>logger.error\<close> emits one error-level entry (its
  text, and the stack trace and the error object when the call passes them);
  \<^verbatim>\<open>GlobalErrorDto.create\<close> and \<^verbatim>\<open>BaseResponse.create\<close> build the envelope
  \<^verbatim>\<open>{ requestId, responseInfo, error: { message } }\<close>, whose \<^verbatim>\<open>message\<close> the spec gives as a
  string: of a string the DTO holds that string, of any other value it is the
  parameter's; \<^verbatim>\<open>response.status(s).json(b)\<close> writes one response with the status \<^verbatim>\<open>s\<close> and
  the body \<^verbatim>\<open>b\<close>.
\<close>

record log_entry =
  text_of :: string
  trace_of :: "string option"
  error_of :: "Error option"

record BaseResponse =
  requestId :: string
  responseInfo :: ResponseInfo
  error :: GlobalErrorDto

record io =
  error_log :: "log_entry list"
  written :: "(int \<times> BaseResponse) list"

definition logger_error :: "string \<Rightarrow> string option \<Rightarrow> Error option \<Rightarrow> io \<Rightarrow> io" where
  "logger_error msg trace err w =
     w\<lparr>error_log := error_log w @ [\<lparr>text_of = msg, trace_of = trace, error_of = err\<rparr>]\<rparr>"

definition GlobalErrorDto_create :: "deps \<Rightarrow> jsval \<Rightarrow> GlobalErrorDto" where
  "GlobalErrorDto_create D msg =
     (case msg of JStr s \<Rightarrow> \<lparr>dto_message = JStr s\<rparr> | _ \<Rightarrow> nonStringErrorDto D msg)"

definition BaseResponse_create :: "string \<Rightarrow> ResponseInfo \<Rightarrow> GlobalErrorDto \<Rightarrow> BaseResponse" where
  "BaseResponse_create rid info dto = \<lparr>requestId = rid, responseInfo = info, error = dto\<rparr>"

definition response_status_json :: "int \<Rightarrow> BaseResponse \<Rightarrow> io \<Rightarrow> io" where
  "response_status_json s body w = w\<lparr>written := written w @ [(s, body)]\<rparr>"

text \<open>
  \<^verbatim>\<open>GlobalExceptionsFilter.catch\<close>. The request-scoped store \<^verbatim>\<open>cls\<close> is a map from keys to
  strings, \<^verbatim>\<open>None\<close> being a key that was never set. A TypeError raised by
  \<^verbatim>\<open>getHttpErrorInfo\<close>, or by the template literal of line 58 when it converts the message
  to a string, leaves the method; either happens before the call of line 58 logs and
  before anything is written, and only for an \<^verbatim>\<open>HttpException\<close>, for which no branch has
  logged before.
\<close>

definition catch :: "deps \<Rightarrow> (string \<rightharpoonup> string) \<Rightarrow> unknown \<Rightarrow> io \<Rightarrow> js_error + io" where
  "catch D cls exception w =
    (let handledException = handleException D exception;
         errName = (if Error_name handledException = [] then ''Error''
                    else Error_name handledException);
         errMessage = JStr ''Internal server error'';
         stack' = (case Error_stack handledException of None \<Rightarrow> [] | Some s \<Rightarrow> s);
         info = INTERNAL_SERVER_ERROR;
         requestId' = (case cls ''requestId'' of None \<Rightarrow> ''Request ID undefined'' | Some r \<Rightarrow> r)
     in case (case handledException of
                HttpExceptionInst h \<Rightarrow>
                  (case getHttpErrorInfo D h of
                     Inl err \<Rightarrow> Inl err
                   | Inr (info', errMessage') \<Rightarrow> Inr (info', errMessage', w))
              | CustomUnExpectedErrorInst f e \<Rightarrow>
                  Inr (UNEXPECTED_ERROR D, errMessage,
                       logger_error (''Request Error - ID: '' @ requestId' @ '', UnDefinedError Occured'')
                         None None w)
              | CustomUndefinedErrorInst f v \<Rightarrow>
                  Inr (UNDEFINED_ERROR D, errMessage,
                       logger_error (''Request Error - ID: '' @ requestId' @ '', UnExpectedError Occured'')
                         None None w)
              | _ \<Rightarrow> Inr (info, errMessage, w)) of
          Inl err \<Rightarrow> Inl err
        | Inr (info, errMessage, w1) \<Rightarrow>
            (case js_ToString (numberToString D) errMessage of
               Inl err \<Rightarrow> Inl err
             | Inr shown \<Rightarrow>
                 (let w2 = logger_error
                             (''Request Error - ID: '' @ requestId' @ '', '' @ errName @ '': ''
                                @ shown)
                             (Some stack') (Some handledException) w1;
                      errDto = GlobalErrorDto_create D errMessage;
                      errResponse = BaseResponse_create requestId' info errDto
                  in Inr (response_status_json (status (responseInfo errResponse)) errResponse
                            w2))))"

section \<open>The mapping the specification describes\<close>

text \<open>
  The fixed table of the specification, status code to category, and the resolution it
  describes: the mapped category, or \<^verbatim>\<open>INTERNAL_SERVER_ERROR\<close> for a code the table does not
  hold. These follow the specification's words; the theorems compare the filter with them.
\<close>

definition status_table :: "(int \<times> ResponseInfo) list" where
  "status_table =
     [(400, BAD_REQUEST), (401, UNAUTHORIZED), (403, FORBIDDEN), (404, NOT_FOUND),
      (409, CONFLICT), (410, GONE), (413, PAYLOAD_TOO_LARGE), (415, UNSUPPORTED_MEDIA_TYPE),
      (422, UNPROCESSABLE_ENTITY), (500, INTERNAL_SERVER_ERROR), (501, NOT_IMPLEMENTED),
      (503, SERVICE_UNAVAILABLE)]"

definition resolve :: "int \<Rightarrow> ResponseInfo" where
  "resolve code =
     (case map_of status_table code of Some info \<Rightarrow> info | None \<Rightarrow> INTERNAL_SERVER_ERROR)"

text \<open>
  The three variants of a classified error, the variant of an \<^verbatim>\<open>Error\<close> that
  \<^verbatim>\<open>handleException\<close> can return, and the classification of the specification: a recognized
  failure first, then a generic error object, then anything else.
\<close>

datatype variant = RecognizedFailure | UnexpectedFailure | UndefinedFailure

fun variant_of :: "Error \<Rightarrow> variant option" where
  "variant_of (HttpExceptionInst h) = Some RecognizedFailure"
| "variant_of (EnvUndefinedErrorInst f) = Some RecognizedFailure"
| "variant_of (CustomUnExpectedErrorInst f e) = Some UnexpectedFailure"
| "variant_of (CustomUndefinedErrorInst f v) = Some UndefinedFailure"
| "variant_of (OtherErrorInst f) = None"

fun classify :: "unknown \<Rightarrow> variant" where
  "classify (AnError (HttpExceptionInst h)) = RecognizedFailure"
| "classify (AnError (EnvUndefinedErrorInst f)) = RecognizedFailure"
| "classify (AnError e) = UnexpectedFailure"
| "classify (NotAnError v) = UndefinedFailure"

text \<open>The category a thrown value ends in, by its kind.\<close>

fun category :: "deps \<Rightarrow> unknown \<Rightarrow> ResponseInfo" where
  "category D (AnError (HttpExceptionInst h)) = resolve (getStatus h)"
| "category D (AnError (EnvUndefinedErrorInst f)) = INTERNAL_SERVER_ERROR"
| "category D (AnError e) = UNEXPECTED_ERROR D"
| "category D (NotAnError v) = UNDEFINED_ERROR D"

text \<open>
  The values on which a property read raises; the values whose conversion to a string
  does not raise, which are those that neither are nor hold an object with an own
  property \<^verbatim>\<open>toString\<close>; and the strings.
\<close>

fun nullish :: "jsval \<Rightarrow> bool" where
  "nullish JUndefined = True"
| "nullish JNull = True"
| "nullish v = False"

fun printable :: "jsval \<Rightarrow> bool"
  and printable_elements :: "jsval list \<Rightarrow> bool" where
  "printable (JArr xs) = printable_elements xs"
| "printable (JObj kvs) = (map_of kvs ''toString'' = None)"
| "printable v = True"
| "printable_elements [] = True"
| "printable_elements (x # xs) = (printable x \<and> printable_elements xs)"


text \<open>
  The inputs on which \<^verbatim>\<open>getHttpErrorInfo\<close> raises: the response body is \<^verbatim>\<open>null\<close> or
  \<^verbatim>\<open>undefined\<close>, or the status is 400 and the body's \<^verbatim>\<open>message\<close> is an array with an element
  whose conversion raises. The inputs on which \<^verbatim>\<open>catch\<close> raises: an \<^verbatim>\<open>HttpException\<close> whose
  response body is \<^verbatim>\<open>null\<close> or \<^verbatim>\<open>undefined\<close>, or is no string and has a \<^verbatim>\<open>message\<close> whose
  conversion raises, in the join of line 81 or in the template literal of line 58.
\<close>

definition getHttpErrorInfo_raises :: "HttpException \<Rightarrow> bool" where
  "getHttpErrorInfo_raises h =
     (case getResponse h of
        JNull \<Rightarrow> True
      | JUndefined \<Rightarrow> True
      | JObj kvs \<Rightarrow>
          (case map_of kvs ''message'' of
             Some (JArr xs) \<Rightarrow> getStatus h = 400 \<and> \<not> printable_elements xs
           | _ \<Rightarrow> False)
      | _ \<Rightarrow> False)"

fun catch_raises :: "unknown \<Rightarrow> bool" where
  "catch_raises (AnError (HttpExceptionInst h)) =
     (case getResponse h of
        JNull \<Rightarrow> True
      | JUndefined \<Rightarrow> True
      | JObj kvs \<Rightarrow> (case map_of kvs ''message'' of None \<Rightarrow> False | Some m \<Rightarrow> \<not> printable m)
      | _ \<Rightarrow> False)"
| "catch_raises exception = False"

text \<open>
  The message an \<^verbatim>\<open>HttpException\<close> sends out: the response body when it is a string;
  otherwise the body's \<^verbatim>\<open>message\<close> field, joined with a comma and a space when it is an
  array and the status is 400, taken as it is when it is truthy, and replaced by the
  exception's own message when it is falsy or absent. And the message any thrown value
  sends out: the generic one when the value is no \<^verbatim>\<open>HttpException\<close>.
\<close>

definition http_message :: "deps \<Rightarrow> HttpException \<Rightarrow> js_error + jsval" where
  "http_message D h =
     (case getResponse h of
        JStr s \<Rightarrow> Inr (JStr s)
      | JNull \<Rightarrow> Inl TypeError
      | JUndefined \<Rightarrow> Inl TypeError
      | JObj kvs \<Rightarrow>
          (case map_of kvs ''message'' of
             None \<Rightarrow> Inr (JStr (message h))
           | Some (JArr xs) \<Rightarrow>
               if getStatus h = 400
               then (case js_join (numberToString D) xs '', '' of
                       Inl err \<Rightarrow> Inl err | Inr joined \<Rightarrow> Inr (JStr joined))
               else Inr (JArr xs)
           | Some m \<Rightarrow> Inr (if js_truthy m then m else JStr (message h)))
      | _ \<Rightarrow> Inr (JStr (message h)))"

fun outward_message :: "deps \<Rightarrow> unknown \<Rightarrow> js_error + jsval" where
  "outward_message D (AnError (HttpExceptionInst h)) = http_message D h"
| "outward_message D exception = Inr (JStr ''Internal server error'')"

text \<open>
  Names for what \<^verbatim>\<open>catch\<close> reads and writes: the correlation identifier of line 46, the
  entry logged at line 58, the entry logged inside a wrapper's branch, the envelope, and
  the state after the entries are logged and the envelope is written.
\<close>

definition requestId_of :: "(string \<rightharpoonup> string) \<Rightarrow> string" where
  "requestId_of cls =
     (case cls ''requestId'' of None \<Rightarrow> ''Request ID undefined'' | Some r \<Rightarrow> r)"

definition final_entry :: "string \<Rightarrow> Error \<Rightarrow> string \<Rightarrow> log_entry" where
  "final_entry rid e shown =
     \<lparr>text_of = ''Request Error - ID: '' @ rid @ '', ''
                 @ (if Error_name e = [] then ''Error'' else Error_name e) @ '': '' @ shown,
      trace_of = Some (case Error_stack e of None \<Rightarrow> [] | Some s \<Rightarrow> s),
      error_of = Some e\<rparr>"

definition branch_entry :: "string \<Rightarrow> string \<Rightarrow> log_entry" where
  "branch_entry rid what =
     \<lparr>text_of = ''Request Error - ID: '' @ rid @ '', '' @ what, trace_of = None, error_of = None\<rparr>"

definition envelope :: "string \<Rightarrow> ResponseInfo \<Rightarrow> GlobalErrorDto \<Rightarrow> BaseResponse" where
  "envelope rid info dto = \<lparr>requestId = rid, responseInfo = info, error = dto\<rparr>"

definition handled :: "io \<Rightarrow> log_entry list \<Rightarrow> BaseResponse \<Rightarrow> io" where
  "handled w entries body =
     w\<lparr>error_log := error_log w @ entries,
       written := written w @ [(status (responseInfo body), body)]\<rparr>"

definition branch_entries :: "(string \<rightharpoonup> string) \<Rightarrow> unknown \<Rightarrow> log_entry list" where
  "branch_entries cls exception =
     (if isHandledError exception then []
      else [branch_entry (requestId_of cls)
              (case exception of AnError e \<Rightarrow> ''UnDefinedError Occured''
                               | NotAnError v \<Rightarrow> ''UnExpectedError Occured'')])"

text \<open>
  Concrete collaborators at which the theorems below are exercised. The sample prints a
  number in its decimal digits, as JavaScript does an integer of magnitude below
  \<open>2 ^ 53\<close>, and makes of a message that is no string a DTO holding it; no input below
  has a number printed.
\<close>

fun digits :: "nat \<Rightarrow> string" where
  "digits n = (if n < 10 then [char_of (48 + n)] else digits (n div 10) @ [char_of (48 + n mod 10)])"

definition int_to_string :: "int \<Rightarrow> string" where
  "int_to_string i = (if i < 0 then CHR ''-'' # digits (nat (- i)) else digits (nat i))"

definition sample_deps :: deps where
  "sample_deps =
     \<lparr>UNEXPECTED_ERROR = \<lparr>status = 500, label = ''UNEXPECTED_ERROR''\<rparr>,
      UNDEFINED_ERROR = \<lparr>status = 500, label = ''UNDEFINED_ERROR''\<rparr>,
      newCustomUnExpectedError =
        (\<lambda>e. \<lparr>name = Error_name e, message = Error_message e, stack = Error_stack e\<rparr>),
      newCustomUndefinedError =
        (\<lambda>v. \<lparr>name = ''CustomUndefinedError'', message = ''Undefined Error'', stack = None\<rparr>),
      nonStringErrorDto = (\<lambda>v. \<lparr>dto_message = v\<rparr>),
      numberToString = int_to_string\<rparr>"

definition empty_io :: io where
  "empty_io = \<lparr>error_log = [], written = []\<rparr>"

section \<open>Properties of the conversions\<close>

lemma nullish_iff: "nullish r \<longleftrightarrow> r = JNull \<or> r = JUndefined"
  by (cases r) simp_all

lemma js_error_TypeError: "(err :: js_error) = TypeError"
  by (cases err) simp

lemma js_error_cases: "(x :: js_error + 'a) = Inl TypeError \<or> (\<exists>y. x = Inr y)"
  by (cases x) (simp_all add: js_error_TypeError)

text \<open>The conversion to a string returns exactly on the printable values.\<close>

lemma ToString_printable:
  "(\<exists>s. js_ToString N v = Inr s) = printable v"
  "(\<exists>s. js_element N v = Inr s) = printable v"
  "(\<exists>ss. js_elements N xs = Inr ss) = printable_elements xs"
proof (induction N v and N v and N xs rule: js_ToString_js_element_js_elements.induct)
  case (6 N xs)
  then show ?case by (auto split: sum.splits)
next
  case (7 N kvs)
  then show ?case by (auto split: option.splits)
next
  case (16 N x xs)
  then show ?case by (auto split: sum.splits)
qed simp_all

lemma js_join_printable: "(\<exists>s. js_join N xs sep = Inr s) = printable_elements xs"
  using ToString_printable(3) [of N xs] by (auto simp: js_join_def split: sum.splits)

lemma js_join_raises: "(js_join N xs sep = Inl TypeError) = (\<not> printable_elements xs)"
  using js_join_printable [of N xs sep] js_error_cases [of "js_join N xs sep"] by auto

lemma js_ToString_raises: "(js_ToString N v = Inl TypeError) = (\<not> printable v)"
  using ToString_printable(1) [of N v] js_error_cases [of "js_ToString N v"] by auto

lemma js_elements_strings: "js_elements N (map JStr ss) = Inr ss"
  by (induction ss) simp_all

text \<open>The join of strings, in terms of the list library alone.\<close>

lemma join_strings_concat:
  "join_strings sep ss =
     (case ss of [] \<Rightarrow> [] | x # xs \<Rightarrow> x @ concat (map (\<lambda>y. sep @ y) xs))"
  by (induction sep ss rule: join_strings.induct) simp_all

section \<open>Properties of \<^verbatim>\<open>getHttpErrorInfo\<close>\<close>

lemma resolve_unfold:
  "resolve c =
     (if c = 400 then BAD_REQUEST else if c = 401 then UNAUTHORIZED
      else if c = 403 then FORBIDDEN else if c = 404 then NOT_FOUND
      else if c = 409 then CONFLICT else if c = 410 then GONE
      else if c = 413 then PAYLOAD_TOO_LARGE else if c = 415 then UNSUPPORTED_MEDIA_TYPE
      else if c = 422 then UNPROCESSABLE_ENTITY else if c = 500 then INTERNAL_SERVER_ERROR
      else if c = 501 then NOT_IMPLEMENTED else if c = 503 then SERVICE_UNAVAILABLE
      else INTERNAL_SERVER_ERROR)"
  by (simp add: resolve_def status_table_def)

lemma resolve_table:
  "resolve 400 = BAD_REQUEST" "resolve 401 = UNAUTHORIZED" "resolve 403 = FORBIDDEN"
  "resolve 404 = NOT_FOUND" "resolve 409 = CONFLICT" "resolve 410 = GONE"
  "resolve 413 = PAYLOAD_TOO_LARGE" "resolve 415 = UNSUPPORTED_MEDIA_TYPE"
  "resolve 422 = UNPROCESSABLE_ENTITY" "resolve 500 = INTERNAL_SERVER_ERROR"
  "resolve 501 = NOT_IMPLEMENTED" "resolve 503 = SERVICE_UNAVAILABLE"
  by (simp_all add: resolve_unfold)

lemma resolve_default:
  "c \<notin> {400, 401, 403, 404, 409, 410, 413, 415, 422, 500, 501, 503}
     \<Longrightarrow> resolve c = INTERNAL_SERVER_ERROR"
  by (simp add: resolve_unfold)

lemmas ResponseInfo_defs = BAD_REQUEST_def UNAUTHORIZED_def FORBIDDEN_def NOT_FOUND_def
  CONFLICT_def GONE_def PAYLOAD_TOO_LARGE_def UNSUPPORTED_MEDIA_TYPE_def
  UNPROCESSABLE_ENTITY_def INTERNAL_SERVER_ERROR_def NOT_IMPLEMENTED_def
  SERVICE_UNAVAILABLE_def

lemma status_table_distinct: "distinct (map snd status_table)"
  by (simp add: status_table_def ResponseInfo_defs)

lemma status_resolve:
  "status (resolve c) = (if c \<in> fst ` set status_table then c else 500)"
  by (simp add: resolve_unfold status_table_def ResponseInfo_defs)

text \<open>What \<^verbatim>\<open>getHttpErrorInfo\<close> does on every \<^verbatim>\<open>HttpException\<close>.\<close>

lemma getHttpErrorInfo_eq:
  "getHttpErrorInfo D h =
     (case http_message D h of
        Inl err \<Rightarrow> Inl err
      | Inr m \<Rightarrow> Inr (resolve (getStatus h), m))"
proof (cases "getResponse h")
  case (JObj kvs)
  show ?thesis
  proof (cases "map_of kvs ''message''")
    case None
    then show ?thesis using JObj
      by (simp add: getHttpErrorInfo_def http_message_def resolve_unfold)
  next
    case (Some m)
    then show ?thesis using JObj
      by (cases m)
        (simp_all add: getHttpErrorInfo_def http_message_def resolve_unfold split: sum.splits)
  qed
qed (simp_all add: getHttpErrorInfo_def http_message_def resolve_unfold)

lemma http_message_raises:
  "(http_message D h = Inl TypeError) = getHttpErrorInfo_raises h"
proof -
  have join: "\<And>xs. (\<exists>err. js_join (numberToString D) xs '', '' = Inl err)
                  = (\<not> printable_elements xs)"
    using js_join_raises [of "numberToString D" _ "'', ''"]
    by (metis js_error_TypeError)
  show ?thesis
    by (simp add: http_message_def getHttpErrorInfo_raises_def js_error_TypeError
        split: jsval.splits option.splits sum.splits)
      (metis join js_join_printable sum.distinct(1))
qed

lemma getHttpErrorInfo_raises_iff:
  "(getHttpErrorInfo D h = Inl TypeError) = getHttpErrorInfo_raises h"
  using http_message_raises [of D h]
  by (auto simp: getHttpErrorInfo_eq split: sum.splits)

lemma http_message_returns:
  "\<not> getHttpErrorInfo_raises h \<Longrightarrow> \<exists>m. http_message D h = Inr m"
  using http_message_raises [of D h] js_error_cases [of "http_message D h"] by auto

section \<open>Properties of \<^verbatim>\<open>handleException\<close> and \<^verbatim>\<open>catch\<close>\<close>

lemmas catch_defs = catch_def Let_def logger_error_def response_status_json_def
  GlobalErrorDto_create_def BaseResponse_create_def requestId_of_def final_entry_def
  branch_entry_def branch_entries_def envelope_def handled_def getUnExpectedError_def
  getUnDefinedError_def

lemma handleException_kept:
  "isHandledError exception \<Longrightarrow> AnError (handleException D exception) = exception"
  by (cases exception rule: isHandledError.cases) simp_all

lemma handleException_variant: "variant_of (handleException D exception) = Some (classify exception)"
  by (cases exception rule: classify.cases)
    (simp_all add: getUnExpectedError_def getUnDefinedError_def)

text \<open>
  What \<^verbatim>\<open>catch\<close> does on every thrown value: it raises when the message cannot be had or
  cannot be converted to a string; otherwise it logs the entry of line 58, after one more
  entry when the value was wrapped, and writes one envelope.
\<close>

lemma catch_eq:
  "catch D cls exception w =
     (case outward_message D exception of
        Inl err \<Rightarrow> Inl err
      | Inr m \<Rightarrow>
          (case js_ToString (numberToString D) m of
             Inl err \<Rightarrow> Inl err
           | Inr shown \<Rightarrow>
               Inr (handled w
                      (branch_entries cls exception
                       @ [final_entry (requestId_of cls) (handleException D exception) shown])
                      (envelope (requestId_of cls) (category D exception)
                         (GlobalErrorDto_create D m)))))"
proof (cases exception)
  case (NotAnError v)
  then show ?thesis by (simp add: catch_defs)
next
  case (AnError e)
  then show ?thesis
    by (cases e) (simp_all add: catch_defs getHttpErrorInfo_eq split: sum.splits)
qed

lemma http_shown:
  "(\<exists>m shown. http_message D h = Inr m \<and> js_ToString (numberToString D) m = Inr shown)
     = (\<not> catch_raises (AnError (HttpExceptionInst h)))"
proof (cases "getResponse h")
  case (JObj kvs)
  show ?thesis
  proof (cases "map_of kvs ''message''")
    case None
    then show ?thesis using JObj by (simp add: http_message_def)
  next
    case (Some m)
    show ?thesis
    proof (cases m)
      case (JArr xs)
      show ?thesis
      proof (cases "getStatus h = 400")
        case True
        then show ?thesis
          using JObj Some JArr js_join_printable [of "numberToString D" xs "'', ''"]
          by (auto simp: http_message_def split: sum.splits)
      next
        case False
        then show ?thesis
          using JObj Some JArr ToString_printable(1) [of "numberToString D" "JArr xs"]
          by (simp add: http_message_def)
      qed
    next
      case (JObj kvs')
      then show ?thesis
        using \<open>getResponse h = JObj kvs\<close> Some
          ToString_printable(1) [of "numberToString D" "JObj kvs'"]
        by (simp add: http_message_def)
    qed (use JObj Some in \<open>simp_all add: http_message_def\<close>)
  qed
qed (simp_all add: http_message_def)

lemma outward_shown:
  "(\<exists>m shown. outward_message D exception = Inr m \<and>
               js_ToString (numberToString D) m = Inr shown)
     = (\<not> catch_raises exception)"
proof (cases exception)
  case (NotAnError v)
  then show ?thesis by simp
next
  case (AnError e)
  show ?thesis
  proof (cases e)
    case (HttpExceptionInst h)
    then show ?thesis
      using AnError http_shown [of D h] by (simp del: catch_raises.simps)
  qed (use AnError in simp_all)
qed

lemma catch_raises_iff: "(catch D cls exception w = Inl TypeError) = catch_raises exception"
  using outward_shown [of D exception]
  by (auto simp: catch_eq js_error_TypeError split: sum.splits)

lemma catch_returns:
  assumes "catch D cls exception w = Inr w'"
  shows "\<exists>m shown. outward_message D exception = Inr m \<and>
           js_ToString (numberToString D) m = Inr shown \<and>
           w' = handled w
                  (branch_entries cls exception
                   @ [final_entry (requestId_of cls) (handleException D exception) shown])
                  (envelope (requestId_of cls) (category D exception)
                     (GlobalErrorDto_create D m))"
  using assms by (auto simp: catch_eq split: sum.splits)

lemma catch_not_raising:
  assumes "\<not> catch_raises exception"
  shows "\<exists>m shown. outward_message D exception = Inr m \<and>
           js_ToString (numberToString D) m = Inr shown \<and>
           catch D cls exception w =
             Inr (handled w
                    (branch_entries cls exception
                     @ [final_entry (requestId_of cls) (handleException D exception) shown])
                    (envelope (requestId_of cls) (category D exception)
                       (GlobalErrorDto_create D m)))"
proof -
  from assms obtain m shown where
    "outward_message D exception = Inr m" "js_ToString (numberToString D) m = Inr shown"
    using outward_shown [of D exception] by blast
  then show ?thesis by (simp add: catch_eq)
qed

text \<open>
  The status code set on the response is the status of the body's category, and the
  body's correlation identifier is the one of line 46.
\<close>

lemma catch_status_of_body:
  assumes "catch D cls exception w = Inr w'"
  shows "\<exists>b. written w' = written w @ [(status (responseInfo b), b)] \<and>
           requestId b = requestId_of cls \<and> responseInfo b = category D exception"
  using catch_returns [OF assms] by (auto simp: handled_def envelope_def)

section \<open>The claims\<close>

text \<open>
  C1 (amended). For every \<^verbatim>\<open>HttpException\<close> on which \<^verbatim>\<open>getHttpErrorInfo\<close> does not raise, that
  is, whose response body is neither \<^verbatim>\<open>null\<close> nor \<^verbatim>\<open>undefined\<close> and, when the status is 400
  and the body's \<^verbatim>\<open>message\<close> is an array, whose array holds no element that cannot be
  converted to a string, \<^verbatim>\<open>getHttpErrorInfo\<close> returns, and the category it resolves is the one
  the fixed table gives the status code (400 \<^verbatim>\<open>BAD_REQUEST\<close>, 401 \<^verbatim>\<open>UNAUTHORIZED\<close>,
  403 \<^verbatim>\<open>FORBIDDEN\<close>, 404 \<^verbatim>\<open>NOT_FOUND\<close>, 409 \<^verbatim>\<open>CONFLICT\<close>, 410 \<^verbatim>\<open>GONE\<close>, 413 \<^verbatim>\<open>PAYLOAD_TOO_LARGE\<close>,
  415 \<^verbatim>\<open>UNSUPPORTED_MEDIA_TYPE\<close>, 422 \<^verbatim>\<open>UNPROCESSABLE_ENTITY\<close>, 500 \<^verbatim>\<open>INTERNAL_SERVER_ERROR\<close>,
  501 \<^verbatim>\<open>NOT_IMPLEMENTED\<close>, 503 \<^verbatim>\<open>SERVICE_UNAVAILABLE\<close>), and \<^verbatim>\<open>INTERNAL_SERVER_ERROR\<close> for every
  other status code.
\<close>

theorem C1_getHttpErrorInfo_category:
  assumes "\<not> getHttpErrorInfo_raises h"
  shows "\<exists>m. getHttpErrorInfo D h = Inr (resolve (getStatus h), m)"
proof -
  from assms obtain m where "http_message D h = Inr m"
    using http_message_returns by blast
  then show ?thesis by (simp add: getHttpErrorInfo_eq)
qed

theorem C1_getHttpErrorInfo_category_witness:
  "\<not> getHttpErrorInfo_raises
        \<lparr>name = ''NotFoundException'', message = ''Not Found'', stack = None, getStatus = 404,
          getResponse = JObj [(''message'', JStr ''Not Found''), (''statusCode'', JNum 404)]\<rparr>
   \<and> (\<exists>m. getHttpErrorInfo sample_deps
         \<lparr>name = ''NotFoundException'', message = ''Not Found'', stack = None, getStatus = 404,
          getResponse = JObj [(''message'', JStr ''Not Found''), (''statusCode'', JNum 404)]\<rparr>
       = Inr (NOT_FOUND, m))"
  using C1_getHttpErrorInfo_category
    [where D = sample_deps and h = "\<lparr>name = ''NotFoundException'', message = ''Not Found'', stack = None, getStatus = 404,
          getResponse = JObj [(''message'', JStr ''Not Found''), (''statusCode'', JNum 404)]\<rparr>"]
  by (simp add: getHttpErrorInfo_raises_def resolve_table)

text \<open>
  As the claim is written, for every \<^verbatim>\<open>HttpException\<close>, it fails: with the response body
  \<^verbatim>\<open>null\<close> the read of \<^verbatim>\<open>.message\<close> raises a TypeError before the status is looked at, and
  with the status 400 and an array holding an object with an own property \<^verbatim>\<open>toString\<close> the
  join raises one; no category is resolved.
\<close>

theorem C1_null_response_counterexample:
  "getHttpErrorInfo sample_deps
     \<lparr>name = ''NotFoundException'', message = ''Not Found'', stack = None,
      getStatus = 404, getResponse = JNull\<rparr> = Inl TypeError
   \<and> getHttpErrorInfo sample_deps
     \<lparr>name = ''BadRequestException'', message = ''Bad Request'', stack = None,
      getStatus = 400,
      getResponse = JObj [(''message'', JArr [JObj [(''toString'', JNum 1)]])]\<rparr>
     = Inl TypeError"
  by (simp add: getHttpErrorInfo_def js_join_def)

text \<open>
  C2. For every thrown value that is neither an \<^verbatim>\<open>HttpException\<close> nor the
  environment-configuration error, \<^verbatim>\<open>catch\<close> returns and writes one response whose body
  message is exactly \<^verbatim>\<open>Internal server error\<close> and whose category is \<^verbatim>\<open>UNEXPECTED_ERROR\<close> when
  the value is an \<^verbatim>\<open>Error\<close> and \<^verbatim>\<open>UNDEFINED_ERROR\<close> when it is not. The body is made of the
  correlation identifier, that category and that message alone: nothing of the thrown
  value, its message included, is in it.
\<close>

theorem C2_unrecognized_generic_response:
  assumes "\<not> isHandledError exception"
  shows "\<exists>w'. catch D cls exception w = Inr w' \<and>
           written w' = written w @
             [(status (case exception of AnError e \<Rightarrow> UNEXPECTED_ERROR D
                                        | NotAnError v \<Rightarrow> UNDEFINED_ERROR D),
               \<lparr>requestId = requestId_of cls,
                responseInfo = (case exception of AnError e \<Rightarrow> UNEXPECTED_ERROR D
                                                | NotAnError v \<Rightarrow> UNDEFINED_ERROR D),
                error = \<lparr>dto_message = JStr ''Internal server error''\<rparr>\<rparr>)]"
proof (cases exception)
  case (AnError e)
  then show ?thesis using assms by (cases e) (simp_all add: catch_defs)
next
  case (NotAnError v)
  then show ?thesis by (simp add: catch_defs)
qed

theorem C2_unrecognized_generic_response_witness:
  "\<not> isHandledError (NotAnError (JStr ''boom'')) \<and>
   (\<exists>w'. catch sample_deps Map.empty (NotAnError (JStr ''boom'')) empty_io = Inr w' \<and>
      written w' =
        [(500, \<lparr>requestId = ''Request ID undefined'',
                responseInfo = \<lparr>status = 500, label = ''UNDEFINED_ERROR''\<rparr>,
                error = \<lparr>dto_message = JStr ''Internal server error''\<rparr>\<rparr>)])"
  using C2_unrecognized_generic_response
    [where exception = "NotAnError (JStr ''boom'')" and D = sample_deps and cls = Map.empty
       and w = empty_io]
  by (simp add: sample_deps_def empty_io_def requestId_of_def)

text \<open>
  C3 (amended). Every recognized failure is kept as it is by the classification. For an
  \<^verbatim>\<open>HttpException\<close> on which \<^verbatim>\<open>catch\<close> does not raise (its response body is neither \<^verbatim>\<open>null\<close>
  nor \<^verbatim>\<open>undefined\<close>, and the body's \<^verbatim>\<open>message\<close> can be converted to a string) the written
  response carries the category the table gives its status code, hence its own status
  code when the table holds it and 500 otherwise, and the DTO made of its own message:
  the response body when it is a string, otherwise the body's \<^verbatim>\<open>message\<close> field (joined
  when it is an array and the status is 400), or the exception's message when that field
  is falsy or absent; a message that is a string is the body's \<^verbatim>\<open>error.message\<close> as it is.
  For the environment-configuration error the written response carries
  \<^verbatim>\<open>INTERNAL_SERVER_ERROR\<close>, status 500, and the generic message.
\<close>

theorem C3_recognized_response:
  assumes "isHandledError exception"
  shows "AnError (handleException D exception) = exception \<and>
         (\<not> catch_raises exception \<longrightarrow>
            (\<exists>w'. catch D cls exception w = Inr w' \<and>
               (case exception of
                  AnError (HttpExceptionInst h) \<Rightarrow>
                    (\<exists>m. http_message D h = Inr m \<and>
                       written w' = written w @
                         [(if getStatus h \<in> fst ` set status_table then getStatus h else 500,
                           \<lparr>requestId = requestId_of cls, responseInfo = resolve (getStatus h),
                            error = GlobalErrorDto_create D m\<rparr>)])
                | _ \<Rightarrow>
                    written w' = written w @
                      [(500,
                        \<lparr>requestId = requestId_of cls, responseInfo = INTERNAL_SERVER_ERROR,
                         error = \<lparr>dto_message = JStr ''Internal server error''\<rparr>\<rparr>)])))"
proof -
  from assms consider (http) h where "exception = AnError (HttpExceptionInst h)"
    | (env) f where "exception = AnError (EnvUndefinedErrorInst f)"
    by (cases exception rule: isHandledError.cases) simp_all
  then show ?thesis
  proof cases
    case env
    then show ?thesis
      by (simp add: catch_eq handled_def envelope_def GlobalErrorDto_create_def
          INTERNAL_SERVER_ERROR_def)
  next
    case http
    show ?thesis
    proof (intro conjI impI)
      show "AnError (handleException D exception) = exception"
        using assms by (rule handleException_kept)
    next
      assume "\<not> catch_raises exception"
      from catch_not_raising [OF this, of D cls w] obtain m shown where
        m: "outward_message D exception = Inr m"
        and c: "catch D cls exception w =
             Inr (handled w
                    (branch_entries cls exception
                     @ [final_entry (requestId_of cls) (handleException D exception) shown])
                    (envelope (requestId_of cls) (category D exception)
                       (GlobalErrorDto_create D m)))"
        by blast
      from m http have "http_message D h = Inr m" by simp
      with c http show "\<exists>w'. catch D cls exception w = Inr w' \<and>
               (case exception of
                  AnError (HttpExceptionInst h) \<Rightarrow>
                    (\<exists>m. http_message D h = Inr m \<and>
                       written w' = written w @
                         [(if getStatus h \<in> fst ` set status_table then getStatus h else 500,
                           \<lparr>requestId = requestId_of cls, responseInfo = resolve (getStatus h),
                            error = GlobalErrorDto_create D m\<rparr>)])
                | _ \<Rightarrow>
                    written w' = written w @
                      [(500,
                        \<lparr>requestId = requestId_of cls, responseInfo = INTERNAL_SERVER_ERROR,
                         error = \<lparr>dto_message = JStr ''Internal server error''\<rparr>\<rparr>)])"
        by (simp add: handled_def envelope_def status_resolve)
    qed
  qed
qed

theorem C3_recognized_response_witness:
  "isHandledError
     (AnError (HttpExceptionInst
        \<lparr>name = ''NotFoundException'', message = ''Not Found'', stack = None, getStatus = 404,
          getResponse = JObj [(''message'', JStr ''Not Found''), (''statusCode'', JNum 404)]\<rparr>))
   \<and> \<not> catch_raises
     (AnError (HttpExceptionInst
        \<lparr>name = ''NotFoundException'', message = ''Not Found'', stack = None, getStatus = 404,
          getResponse = JObj [(''message'', JStr ''Not Found''), (''statusCode'', JNum 404)]\<rparr>))
   \<and> (\<exists>w'. catch sample_deps Map.empty
          (AnError (HttpExceptionInst
             \<lparr>name = ''NotFoundException'', message = ''Not Found'', stack = None, getStatus = 404,
          getResponse = JObj [(''message'', JStr ''Not Found''), (''statusCode'', JNum 404)]\<rparr>))
          empty_io = Inr w' \<and>
        written w' =
          [(404, \<lparr>requestId = ''Request ID undefined'', responseInfo = NOT_FOUND,
                  error = \<lparr>dto_message = JStr ''Not Found''\<rparr>\<rparr>)])"
  using C3_recognized_response
    [where exception = "AnError (HttpExceptionInst
           \<lparr>name = ''NotFoundException'', message = ''Not Found'', stack = None, getStatus = 404,
          getResponse = JObj [(''message'', JStr ''Not Found''), (''statusCode'', JNum 404)]\<rparr>)"
       and D = sample_deps and cls = Map.empty and w = empty_io]
  by (simp add: empty_io_def requestId_of_def resolve_table status_table_def http_message_def
      GlobalErrorDto_create_def)

text \<open>
  As the claim is written it fails four times: the environment-configuration error's
  own message is replaced by the generic one; an \<^verbatim>\<open>HttpException\<close> with a status code
  outside the table (418) is answered with status 500; and an \<^verbatim>\<open>HttpException\<close> with an
  \<^verbatim>\<open>undefined\<close> response body, or with a \<^verbatim>\<open>message\<close> that is an object with an own property
  \<^verbatim>\<open>toString\<close>, is answered with nothing, a TypeError leaving the method.
\<close>

theorem C3_recognized_response_counterexample:
  "map_sum id written
     (catch sample_deps Map.empty
        (AnError (EnvUndefinedErrorInst
           \<lparr>name = ''EnvUndefinedError'', message = ''DATABASE_URL is undefined'', stack = None\<rparr>))
        empty_io)
     = Inr [(500, \<lparr>requestId = ''Request ID undefined'', responseInfo = INTERNAL_SERVER_ERROR,
                   error = \<lparr>dto_message = JStr ''Internal server error''\<rparr>\<rparr>)]
   \<and> map_sum id written
     (catch sample_deps Map.empty
        (AnError (HttpExceptionInst
           \<lparr>name = ''HttpException'', message = ''teapot'', stack = None, getStatus = 418,
          getResponse = JStr ''teapot''\<rparr>))
        empty_io)
     = Inr [(500, \<lparr>requestId = ''Request ID undefined'', responseInfo = INTERNAL_SERVER_ERROR,
                   error = \<lparr>dto_message = JStr ''teapot''\<rparr>\<rparr>)]
   \<and> catch sample_deps Map.empty
        (AnError (HttpExceptionInst
           \<lparr>name = ''ForbiddenException'', message = ''Forbidden'', stack = None, getStatus = 403,
            getResponse = JUndefined\<rparr>))
        empty_io
     = Inl TypeError
   \<and> catch sample_deps Map.empty
        (AnError (HttpExceptionInst
           \<lparr>name = ''ForbiddenException'', message = ''Forbidden'', stack = None, getStatus = 403,
            getResponse = JObj [(''message'', JObj [(''toString'', JNum 1)])]\<rparr>))
        empty_io
     = Inl TypeError"
  by (simp add: catch_defs getHttpErrorInfo_def empty_io_def ResponseInfo_defs)

text \<open>
  C4 (amended). For every thrown value other than an \<^verbatim>\<open>HttpException\<close> whose response body
  is \<^verbatim>\<open>null\<close> or \<^verbatim>\<open>undefined\<close>, or has a \<^verbatim>\<open>message\<close> that cannot be converted to a string (it
  is, or as an array holds, an object with an own property \<^verbatim>\<open>toString\<close>), \<^verbatim>\<open>catch\<close> raises
  nothing and writes exactly one response: so for \<^verbatim>\<open>null\<close>, for \<^verbatim>\<open>undefined\<close>, and for an
  \<^verbatim>\<open>HttpException\<close> whose response body lacks the expected fields.
\<close>

theorem C4_catch_returns:
  assumes "\<not> catch_raises exception"
  shows "\<exists>w'. catch D cls exception w = Inr w' \<and>
           length (written w') = Suc (length (written w))"
  using catch_not_raising [OF assms, of D cls w] by (auto simp: handled_def)

theorem C4_catch_returns_witness:
  "\<not> catch_raises (NotAnError JNull) \<and>
   (\<exists>w'. catch sample_deps Map.empty (NotAnError JNull) empty_io = Inr w' \<and>
      length (written w') = Suc (length (written empty_io)))
   \<and> \<not> catch_raises
     (AnError (HttpExceptionInst
        \<lparr>name = ''HttpException'', message = ''Http Exception'', stack = None, getStatus = 400,
         getResponse = JObj []\<rparr>))
   \<and> (\<exists>w'. catch sample_deps Map.empty
          (AnError (HttpExceptionInst
             \<lparr>name = ''HttpException'', message = ''Http Exception'', stack = None, getStatus = 400,
              getResponse = JObj []\<rparr>))
          empty_io = Inr w' \<and>
        length (written w') = Suc (length (written empty_io)))"
  using C4_catch_returns
      [where exception = "NotAnError JNull" and D = sample_deps and cls = Map.empty
         and w = empty_io]
    C4_catch_returns
      [where exception = "AnError (HttpExceptionInst
             \<lparr>name = ''HttpException'', message = ''Http Exception'', stack = None, getStatus = 400,
              getResponse = JObj []\<rparr>)"
         and D = sample_deps and cls = Map.empty and w = empty_io]
  by simp

text \<open>
  As the claim is written, for every input value whatsoever, it fails: on an
  \<^verbatim>\<open>HttpException\<close> whose response body is \<^verbatim>\<open>null\<close> the read of \<^verbatim>\<open>.message\<close> raises a TypeError,
  and on one whose \<^verbatim>\<open>message\<close> is an object with an own property \<^verbatim>\<open>toString\<close> the template
  literal of line 58 raises one; either leaves \<^verbatim>\<open>catch\<close>.
\<close>

theorem C4_catch_raises_counterexample:
  "catch sample_deps Map.empty
     (AnError (HttpExceptionInst
        \<lparr>name = ''HttpException'', message = ''Http Exception'', stack = None, getStatus = 500,
         getResponse = JNull\<rparr>))
     empty_io
   = Inl TypeError
   \<and> catch sample_deps Map.empty
     (AnError (HttpExceptionInst
        \<lparr>name = ''NotFoundException'', message = ''Not Found'', stack = None, getStatus = 404,
         getResponse = JObj [(''message'', JObj [(''toString'', JNum 1)])]\<rparr>))
     empty_io
   = Inl TypeError"
  by (simp add: catch_defs getHttpErrorInfo_def)




text \<open>
  C6. For every \<^verbatim>\<open>HttpException\<close> with status 400 whose response body is an object with a
  \<^verbatim>\<open>message\<close> field that is an array of strings, \<^verbatim>\<open>getHttpErrorInfo\<close> returns \<^verbatim>\<open>BAD_REQUEST\<close> with
  the elements joined with a comma and a space (the first element, then every other
  element after a comma and a space), and that string is the message of the response
  \<^verbatim>\<open>catch\<close> writes; the witness is the array of \<^verbatim>\<open>a required\<close> and \<^verbatim>\<open>b required\<close>.
\<close>

theorem C6_bad_request_array_joined:
  assumes "getStatus h = 400"
    and "getResponse h = JObj kvs"
    and "map_of kvs ''message'' = Some (JArr (map JStr ss))"
  shows "getHttpErrorInfo D h =
           Inr (BAD_REQUEST,
                JStr (case ss of [] \<Rightarrow> [] | x # xs \<Rightarrow> x @ concat (map (\<lambda>y. '', '' @ y) xs))) \<and>
         (\<exists>w'. catch D cls (AnError (HttpExceptionInst h)) w = Inr w' \<and>
            written w' = written w @
              [(400,
                \<lparr>requestId = requestId_of cls, responseInfo = BAD_REQUEST,
                 error = \<lparr>dto_message =
                   JStr (case ss of [] \<Rightarrow> []
                                  | x # xs \<Rightarrow> x @ concat (map (\<lambda>y. '', '' @ y) xs))\<rparr>\<rparr>)])"
proof -
  have m: "http_message D h = Inr (JStr (join_strings '', '' ss))"
    using assms by (simp add: http_message_def js_join_def js_elements_strings)
  have j: "join_strings '', '' ss =
             (case ss of [] \<Rightarrow> [] | x # xs \<Rightarrow> x @ concat (map (\<lambda>y. '', '' @ y) xs))"
    by (rule join_strings_concat)
  show ?thesis
    using assms(1) m
    by (simp add: catch_eq getHttpErrorInfo_eq handled_def envelope_def resolve_table
        GlobalErrorDto_create_def BAD_REQUEST_def flip: j)
qed

theorem C6_bad_request_array_joined_witness:
  "getStatus \<lparr>name = ''BadRequestException'', message = ''Bad Request Exception'', stack = None,
          getStatus = 400,
          getResponse = JObj [(''message'', JArr [JStr ''a required'', JStr ''b required'']),
                              (''error'', JStr ''Bad Request''), (''statusCode'', JNum 400)]\<rparr> = 400
   \<and> map_of [(''message'', JArr [JStr ''a required'', JStr ''b required'']),
             (''error'', JStr ''Bad Request''), (''statusCode'', JNum 400)] ''message''
       = Some (JArr (map JStr [''a required'', ''b required'']))
   \<and> getHttpErrorInfo sample_deps
        \<lparr>name = ''BadRequestException'', message = ''Bad Request Exception'', stack = None,
          getStatus = 400,
          getResponse = JObj [(''message'', JArr [JStr ''a required'', JStr ''b required'']),
                              (''error'', JStr ''Bad Request''), (''statusCode'', JNum 400)]\<rparr>
       = Inr (BAD_REQUEST, JStr ''a required, b required'')
   \<and> (\<exists>w'. catch sample_deps Map.empty
          (AnError (HttpExceptionInst
             \<lparr>name = ''BadRequestException'', message = ''Bad Request Exception'', stack = None,
          getStatus = 400,
          getResponse = JObj [(''message'', JArr [JStr ''a required'', JStr ''b required'']),
                              (''error'', JStr ''Bad Request''), (''statusCode'', JNum 400)]\<rparr>))
          empty_io = Inr w' \<and>
        written w' =
          [(400, \<lparr>requestId = ''Request ID undefined'', responseInfo = BAD_REQUEST,
                  error = \<lparr>dto_message = JStr ''a required, b required''\<rparr>\<rparr>)])"
  using C6_bad_request_array_joined
    [where h = "\<lparr>name = ''BadRequestException'', message = ''Bad Request Exception'', stack = None,
          getStatus = 400,
          getResponse = JObj [(''message'', JArr [JStr ''a required'', JStr ''b required'']),
                              (''error'', JStr ''Bad Request''), (''statusCode'', JNum 400)]\<rparr>"
       and kvs = "[(''message'', JArr [JStr ''a required'', JStr ''b required'']),
                   (''error'', JStr ''Bad Request''), (''statusCode'', JNum 400)]"
       and ss = "[''a required'', ''b required'']"
       and D = sample_deps and cls = Map.empty and w = empty_io]
  by (simp add: empty_io_def requestId_of_def)


text \<open>
  C8. For every handled failure, when the request-scoped store has no value for
  \<^verbatim>\<open>requestId\<close>, every log entry the handler emits begins with
  \<^verbatim>\<open>Request Error - ID: Request ID undefined\<close> and the \<^verbatim>\<open>requestId\<close> of the response body is
  exactly \<^verbatim>\<open>Request ID undefined\<close>.
\<close>

theorem C8_requestId_default:
  assumes "cls ''requestId'' = None" and "catch D cls exception w = Inr w'"
  shows "\<exists>entries s b.
           error_log w' = error_log w @ entries \<and> entries \<noteq> [] \<and>
           list_all (\<lambda>l. prefix ''Request Error - ID: Request ID undefined, '' (text_of l))
             entries \<and>
           written w' = written w @ [(s, b)] \<and>
           requestId b = ''Request ID undefined''"
proof -
  have rid: "requestId_of cls = ''Request ID undefined''"
    using assms(1) by (simp add: requestId_of_def)
  from catch_returns [OF assms(2)] obtain m shown where
    "w' = handled w
            (branch_entries cls exception
             @ [final_entry (requestId_of cls) (handleException D exception) shown])
            (envelope (requestId_of cls) (category D exception)
               (GlobalErrorDto_create D m))"
    by blast
  then show ?thesis
    by (simp add: rid handled_def envelope_def branch_entries_def branch_entry_def
        final_entry_def)
qed

theorem C8_requestId_default_witness:
  "Map.empty ''requestId'' = (None :: string option) \<and>
   (\<exists>w'. catch sample_deps Map.empty
            (AnError (OtherErrorInst \<lparr>name = ''Error'', message = ''x'', stack = None\<rparr>))
            empty_io = Inr w' \<and>
      (\<exists>entries s b.
           error_log w' = entries \<and> entries \<noteq> [] \<and>
           list_all (\<lambda>l. prefix ''Request Error - ID: Request ID undefined, '' (text_of l))
             entries \<and>
           written w' = [(s, b)] \<and>
           requestId b = ''Request ID undefined''))"
proof -
  let ?x = "AnError (OtherErrorInst \<lparr>name = ''Error'', message = ''x'', stack = None\<rparr>)"
  have "\<not> catch_raises ?x" by simp
  from catch_not_raising [OF this, of sample_deps Map.empty empty_io]
  obtain w' where w': "catch sample_deps Map.empty ?x empty_io = Inr w'"
    by blast
  have e: "Map.empty ''requestId'' = (None :: string option)"
    by simp
  from C8_requestId_default [OF e w'] have
    "\<exists>entries s b.
           error_log w' = entries \<and> entries \<noteq> [] \<and>
           list_all (\<lambda>l. prefix ''Request Error - ID: Request ID undefined, '' (text_of l))
             entries \<and>
           written w' = [(s, b)] \<and>
           requestId b = ''Request ID undefined''"
    by (simp add: empty_io_def)
  with w' e show ?thesis by blast
qed

text \<open>
  C9 (amended). For every thrown value the classification assigns exactly one variant,
  the one the specification's priority order gives it: recognized, unexpected-wrapped or
  undefined-wrapped. For every thrown value on which \<^verbatim>\<open>catch\<close> does not raise (every value
  other than an \<^verbatim>\<open>HttpException\<close> whose response body is \<^verbatim>\<open>null\<close> or \<^verbatim>\<open>undefined\<close> or has a
  \<^verbatim>\<open>message\<close> that cannot be converted to a string), the handler resolves exactly one
  category: the table's for an \<^verbatim>\<open>HttpException\<close>, with \<^verbatim>\<open>INTERNAL_SERVER_ERROR\<close> as the fallback
  for an unmapped status code, \<^verbatim>\<open>INTERNAL_SERVER_ERROR\<close> for the environment-configuration
  error, \<^verbatim>\<open>UNEXPECTED_ERROR\<close> for any other \<^verbatim>\<open>Error\<close> and \<^verbatim>\<open>UNDEFINED_ERROR\<close> for a value that is no
  \<^verbatim>\<open>Error\<close>.
\<close>

theorem C9_classification_total:
  "variant_of (handleException D exception) = Some (classify exception) \<and>
   (\<not> catch_raises exception \<longrightarrow>
      (\<exists>w' b. catch D cls exception w = Inr w' \<and>
         written w' = written w @ [(status (responseInfo b), b)] \<and>
         responseInfo b = category D exception))"
proof (intro conjI impI)
  show "variant_of (handleException D exception) = Some (classify exception)"
    by (rule handleException_variant)
next
  assume "\<not> catch_raises exception"
  from catch_not_raising [OF this, of D cls w]
  show "\<exists>w' b. catch D cls exception w = Inr w' \<and>
         written w' = written w @ [(status (responseInfo b), b)] \<and>
         responseInfo b = category D exception"
    by (auto simp: handled_def envelope_def)
qed

theorem C9_classification_total_witness:
  "\<not> catch_raises
       (AnError (HttpExceptionInst
          \<lparr>name = ''HttpException'', message = ''teapot'', stack = None, getStatus = 418,
          getResponse = JStr ''teapot''\<rparr>))
   \<and> variant_of (handleException sample_deps
       (AnError (HttpExceptionInst
          \<lparr>name = ''HttpException'', message = ''teapot'', stack = None, getStatus = 418,
          getResponse = JStr ''teapot''\<rparr>))) = Some RecognizedFailure
   \<and> (\<exists>w' b. catch sample_deps Map.empty
          (AnError (HttpExceptionInst
             \<lparr>name = ''HttpException'', message = ''teapot'', stack = None, getStatus = 418,
          getResponse = JStr ''teapot''\<rparr>))
          empty_io = Inr w' \<and>
        written w' = [(status (responseInfo b), b)] \<and>
        responseInfo b = INTERNAL_SERVER_ERROR)"
  using C9_classification_total
    [where exception = "AnError (HttpExceptionInst
           \<lparr>name = ''HttpException'', message = ''teapot'', stack = None, getStatus = 418,
          getResponse = JStr ''teapot''\<rparr>)"
       and D = sample_deps and cls = Map.empty and w = empty_io]
  by (simp add: empty_io_def resolve_unfold)

text \<open>
  As the claim is written, for every input value, it fails: on an \<^verbatim>\<open>HttpException\<close> whose
  response body is \<^verbatim>\<open>undefined\<close>, and on one with the status 400 whose array of messages
  holds an object with an own property \<^verbatim>\<open>toString\<close>, the handler raises and resolves no
  category.
\<close>

theorem C9_no_category_counterexample:
  "catch sample_deps Map.empty
     (AnError (HttpExceptionInst
        \<lparr>name = ''BadRequestException'', message = ''Bad Request'', stack = None,
         getStatus = 400, getResponse = JUndefined\<rparr>))
     empty_io
   = Inl TypeError
   \<and> catch sample_deps Map.empty
     (AnError (HttpExceptionInst
        \<lparr>name = ''BadRequestException'', message = ''Bad Request'', stack = None,
         getStatus = 400,
         getResponse = JObj [(''message'', JArr [JStr ''a'', JObj [(''toString'', JNum 1)]])]\<rparr>))
     empty_io
   = Inl TypeError"
  by (simp add: catch_defs getHttpErrorInfo_def js_join_def)

text \<open>
  C10. For every environment-configuration error, which is no \<^verbatim>\<open>HttpException\<close>, the
  handler keeps it as it is and writes one response with status 500, the category
  \<^verbatim>\<open>INTERNAL_SERVER_ERROR\<close> and the body message \<^verbatim>\<open>Internal server error\<close>, whatever the error's
  own message: none of the three branches of \<^verbatim>\<open>catch\<close> matches it.
\<close>

theorem C10_env_error_generic_500:
  "isHandledError (AnError (EnvUndefinedErrorInst f)) \<and>
   handleException D (AnError (EnvUndefinedErrorInst f)) = EnvUndefinedErrorInst f \<and>
   status INTERNAL_SERVER_ERROR = 500 \<and>
   (\<exists>w'. catch D cls (AnError (EnvUndefinedErrorInst f)) w = Inr w' \<and>
      written w' = written w @
        [(500, \<lparr>requestId = requestId_of cls, responseInfo = INTERNAL_SERVER_ERROR,
                error = \<lparr>dto_message = JStr ''Internal server error''\<rparr>\<rparr>)])"
  by (simp add: catch_defs INTERNAL_SERVER_ERROR_def)

end
